theory Spec2Isabelle
  imports Main "HOL-Library.Word" "HOL-Library.AList"
begin

section \<open>Data model of the client core (src/gremlinclient.js)\<close>

text \<open>
  JavaScript strings are modelled as \<open>string\<close>: a list of code units below 256, so
  \<open>length\<close> is the JavaScript \<open>.length\<close> on this range. Values carried in
  \<open>result.data\<close> and in bindings are JSON values.
\<close>

datatype json =
  JNull | JBool bool | JNum int | JStr string | JArr "json list" | JObj "(string \<times> json) list"

text \<open>
  The protocol message of a command, as \<open>sendCommand\<close>, \<open>sendMessage\<close> and
  \<open>packMessageToBinary\<close> read it: every property is present (the builder fills them).
\<close>

record args_bag =
  gremlin :: string
  bindings :: json
  accept :: string
  language :: string
  binary :: bool
  session :: "string option"

record message =
  requestId :: string
  processor :: string
  op :: string
  args :: args_bag

text \<open>
  A \<open>MessageStream\<close> object is known by its identity. A command is the object
  \<open>{message: ..., messageStream: ...}\<close>; the type parameter is how the message is held
  (by value in the core, by reference where the builder works on the caller's objects).
\<close>

type_synonym sink = nat

record 'm command =
  message :: 'm
  messageStream :: sink

text \<open>
  An inbound frame after \<open>JSON.parse\<close>: \<open>rawMessage.requestId\<close>,
  \<open>rawMessage.status.code\<close>, \<open>rawMessage.status.message\<close> and
  \<open>rawMessage.result.data\<close>. A frame that does not parse, or has no \<open>status\<close>, makes
  \<open>handleMessage\<close> throw before any lookup; such frames are not values of this type.
\<close>

record frame =
  frame_requestId :: string
  status_code :: int
  status_message :: string
  result_data :: "json list"

text \<open>The transport's \<open>CloseEvent\<close>, and a JavaScript \<open>Error\<close> with its optional \<open>details\<close>.\<close>

record close_event =
  close_code :: nat
  close_reason :: string
  wasClean :: bool

record js_error =
  error_message :: string
  details :: "close_event option"

record reason =
  reason_message :: string
  reason_details :: close_event

text \<open>
  What the client does to its collaborators, in the order it does it:
  \<open>this.ws.send(x)\<close>, \<open>this.emit(name)\<close>, \<open>messageStream.push(x)\<close> (\<open>None\<close> is
  \<open>push(null)\<close>) and \<open>messageStream.emit('error', e)\<close>.
\<close>

datatype payload = Text string | Binary "8 word list"

datatype effect =
  Ws_send payload
  | Client_emit string
  | Stream_push sink "frame option"
  | Stream_emit_error sink js_error

text \<open>
  The fields of a \<open>GremlinClient\<close> that the modelled methods read or write. The object
  \<open>this.commands\<close> is an association list in the order \<open>Object.keys\<close> gives, which
  is insertion order: \<open>AList.update\<close> assigns a property, \<open>AList.delete\<close> deletes it,
  \<open>map_of\<close> reads it. Tokens are taken to be neither array indices (which
  \<open>Object.keys\<close> lists first) nor names that an empty object inherits, such as
  \<open>toString\<close> (which read as defined); a UUID is neither. \<open>effects\<close> is the log of
  the calls made so far. A call is logged and returns: what the transport or a listener
  does in turn is outside the model, and every stream is taken to have an \<open>error\<close>
  listener (without one, \<open>emit('error', e)\<close> throws \<open>e\<close>).
\<close>

record client =
  options_accept :: string
  options_language :: string
  options_op :: string
  options_processor :: string
  useSession :: bool
  sessionId :: "string option"
  connected :: bool
  queue :: "message command list"
  commands :: "(string \<times> message command) list"
  lastAuthenticationReqId :: "string option"
  effects :: "effect list"

text \<open>The client as the constructor leaves it when it is given no options.\<close>

definition GremlinClient :: client where
  "GremlinClient =
     \<lparr>options_accept = ''application/json'', options_language = ''gremlin-groovy'',
      options_op = ''eval'', options_processor = '''', useSession = False, sessionId = None,
      connected = False, queue = [], commands = [], lastAuthenticationReqId = None,
      effects = []\<rparr>"

section \<open>Response dispatcher\<close>

text \<open>Decimal rendering of an integer, as string concatenation renders a status code.\<close>

fun string_of_nat :: "nat \<Rightarrow> string" where
  "string_of_nat n =
     (if n < 10 then [''0123456789'' ! n]
      else string_of_nat (n div 10) @ [''0123456789'' ! (n mod 10)])"

declare string_of_nat.simps [simp del]

definition string_of_number :: "int \<Rightarrow> string" where
  "string_of_number i = (if i < 0 then CHR ''-'' # string_of_nat (nat (- i)) else string_of_nat (nat i))"

definition do_effects :: "effect list \<Rightarrow> client \<Rightarrow> client" where
  "do_effects es s = s\<lparr>effects := effects s @ es\<rparr>"

text \<open>
  The part of \<open>handleMessage\<close> after the token is known: the lookup in
  \<open>this.commands\<close> and the \<open>switch\<close> on the status code.
\<close>

definition dispatch :: "string \<Rightarrow> frame \<Rightarrow> client \<Rightarrow> client" where
  "dispatch rid rawMessage s =
     (case map_of (commands s) rid of
        None \<Rightarrow> s
      | Some command \<Rightarrow>
          (let statusCode = status_code rawMessage;
               ms = messageStream command
           in if statusCode = 200 then
                do_effects [Stream_push ms (Some rawMessage), Stream_push ms None]
                  (s\<lparr>commands := AList.delete rid (commands s)\<rparr>)
              else if statusCode = 204 then
                do_effects [Stream_push ms None]
                  (s\<lparr>commands := AList.delete rid (commands s)\<rparr>)
              else if statusCode = 206 then
                do_effects [Stream_push ms (Some rawMessage)] s
              else
                do_effects
                  [Stream_emit_error ms
                     \<lparr>error_message =
                        status_message rawMessage @ '' (Error '' @ string_of_number statusCode @ '')'',
                      details = None\<rparr>]
                  (s\<lparr>commands := AList.delete rid (commands s)\<rparr>)))"

definition handleMessage :: "frame \<Rightarrow> client \<Rightarrow> client" where
  "handleMessage rawMessage s =
     (case lastAuthenticationReqId s of
        Some r \<Rightarrow> dispatch r rawMessage (s\<lparr>lastAuthenticationReqId := None\<rparr>)
      | None \<Rightarrow> dispatch (frame_requestId rawMessage) rawMessage s)"

text \<open>The token \<open>handleMessage\<close> looks up: the slot's when the slot is set, the frame's otherwise.\<close>

definition correlation_token :: "frame \<Rightarrow> client \<Rightarrow> string" where
  "correlation_token rawMessage s =
     (case lastAuthenticationReqId s of Some r \<Rightarrow> r | None \<Rightarrow> frame_requestId rawMessage)"

section \<open>Frame packing and transmission\<close>

text \<open>
  \<open>unescape(encodeURIComponent(s))\<close>: the UTF-8 bytes of \<open>s\<close>, each as one code unit. A
  code unit below 128 stays; one from 128 to 255 becomes two bytes.
\<close>

definition utf8_unit :: "char \<Rightarrow> string" where
  "utf8_unit c =
     (let n = (of_char c :: nat)
      in if n < 128 then [c] else [char_of (192 + n div 64), char_of (128 + n mod 64)])"

definition utf8_escape :: "string \<Rightarrow> string" where
  "utf8_escape s = concat (map utf8_unit s)"

text \<open>
  The loop \<open>for (let i = 0; i < serializedMessage.length; i++)
  binaryMessage[i + 1] = serializedMessage.charCodeAt(i)\<close> over a \<open>Uint8Array\<close>, which
  keeps the low eight bits of what is stored.
\<close>

function pack_loop :: "nat \<Rightarrow> string \<Rightarrow> 8 word list \<Rightarrow> 8 word list" where
  "pack_loop i serializedMessage binaryMessage =
     (if i < length serializedMessage then
        pack_loop (i + 1) serializedMessage
          (binaryMessage[i + 1 := of_char (serializedMessage ! i)])
      else binaryMessage)"
  by pat_completeness auto
termination
  by (relation "measure (\<lambda>(i, serializedMessage, binaryMessage). length serializedMessage - i)") auto

declare pack_loop.simps [simp del]

text \<open>
  \<open>JSON.stringify\<close> is the platform's; the methods that call it take it as the
  parameter \<open>stringify\<close>.
\<close>

definition packMessageToBinary :: "(message \<Rightarrow> string) \<Rightarrow> client \<Rightarrow> message \<Rightarrow> 8 word list" where
  "packMessageToBinary stringify s msg =
     (let serializedMessage = accept (args msg) @ stringify msg;
          serializedMessage = utf8_escape serializedMessage;
          binaryMessage = replicate (1 + length serializedMessage) 0;
          binaryMessage = binaryMessage[0 := of_nat (length (options_accept s))]
      in pack_loop 0 serializedMessage binaryMessage)"

text \<open>What \<open>sendMessage\<close> hands to \<open>this.ws.send\<close>.\<close>

definition formatedMessage :: "(message \<Rightarrow> string) \<Rightarrow> client \<Rightarrow> message \<Rightarrow> payload" where
  "formatedMessage stringify s msg =
     (if binary (args msg) then Binary (packMessageToBinary stringify s msg)
      else Text (stringify msg))"

definition sendMessage :: "(message \<Rightarrow> string) \<Rightarrow> message \<Rightarrow> client \<Rightarrow> client" where
  "sendMessage stringify msg s = do_effects [Ws_send (formatedMessage stringify s msg)] s"

section \<open>Connection state machine\<close>

text \<open>\<open>while (this.queue.length > 0) { command = this.queue.shift(); this.sendMessage(command.message); }\<close>\<close>

function executeQueue :: "(message \<Rightarrow> string) \<Rightarrow> client \<Rightarrow> client" where
  "executeQueue stringify s =
     (case queue s of
        [] \<Rightarrow> s
      | command # rest \<Rightarrow>
          executeQueue stringify (sendMessage stringify (message command) (s\<lparr>queue := rest\<rparr>)))"
  by pat_completeness auto
termination
  by (relation "measure (\<lambda>(stringify, s). length (queue s))")
     (auto simp: sendMessage_def do_effects_def)

declare executeQueue.simps [simp del]

definition onConnectionOpen :: "(message \<Rightarrow> string) \<Rightarrow> client \<Rightarrow> client" where
  "onConnectionOpen stringify s =
     executeQueue stringify (do_effects [Client_emit ''connect''] (s\<lparr>connected := True\<rparr>))"

text \<open>
  \<open>Object.keys(commands).forEach(...)\<close> runs over the keys of the table as it was before
  it was replaced by the empty object.
\<close>

definition cancelPendingCommands :: "reason \<Rightarrow> client \<Rightarrow> client" where
  "cancelPendingCommands rsn s =
     (let commands0 = commands s;
          error = \<lparr>error_message = reason_message rsn, details = Some (reason_details rsn)\<rparr>;
          s1 = s\<lparr>queue := [], commands := []\<rparr>
      in fold (\<lambda>key st.
                 case map_of commands0 key of
                   None \<Rightarrow> st
                 | Some command \<Rightarrow> do_effects [Stream_emit_error (messageStream command) error] st)
           (map fst commands0) s1)"

definition handleDisconnection :: "close_event \<Rightarrow> client \<Rightarrow> client" where
  "handleDisconnection event s =
     cancelPendingCommands \<lparr>reason_message = ''WebSocket closed'', reason_details = event\<rparr> s"

definition sendCommand :: "(message \<Rightarrow> string) \<Rightarrow> message command \<Rightarrow> client \<Rightarrow> client" where
  "sendCommand stringify command s =
     (let s1 = s\<lparr>commands := AList.update (requestId (message command)) command (commands s)\<rparr>;
          s2 = (if op (message command) = ''authentication''
                then s1\<lparr>lastAuthenticationReqId := Some (requestId (message command))\<rparr>
                else s1)
      in if connected s2 then sendMessage stringify (message command) s2
         else s2\<lparr>queue := queue s2 @ [command]\<rparr>)"

section \<open>Incremental result stream\<close>

text \<open>
  Modelled from the spec: highland's \<open>map\<close> and \<open>sequence\<close>, which \<open>stream\<close> composes
  (the library is not under src/). \<open>map\<close> applies a function to every value that passes;
  \<open>sequence\<close> reads a stream of arrays and emits their elements one at a time, array
  after array.
\<close>

definition highland_map :: "('a \<Rightarrow> 'b) \<Rightarrow> 'a list \<Rightarrow> 'b list" where
  "highland_map f xs = map f xs"

fun highland_sequence :: "'a list list \<Rightarrow> 'a list" where
  "highland_sequence [] = []"
| "highland_sequence ([] # xss) = highland_sequence xss"
| "highland_sequence ((x # xs) # xss) = x # highland_sequence (xs # xss)"

text \<open>
  Modelled from the spec: a \<open>MessageStream\<close> (./messagestream, not under src/) is an
  ordered push sequence, so what it delivers to the pipe are the frames pushed to it, in
  the order of the pushes. They are read off the log of effects.
\<close>

fun pushed_frames :: "sink \<Rightarrow> effect list \<Rightarrow> frame list" where
  "pushed_frames ms [] = []"
| "pushed_frames ms (Stream_push ms' (Some rawMessage) # es) =
     (if ms' = ms then rawMessage # pushed_frames ms es else pushed_frames ms es)"
| "pushed_frames ms (e # es) = pushed_frames ms es"

text \<open>
  The pipeline of \<open>stream\<close>: \<open>_.pipeline(_.map(function(message) { return
  message.result.data; }), _.sequence())\<close>, fed with the frames of the \<open>messageStream\<close>.
\<close>

definition stream :: "frame list \<Rightarrow> json list" where
  "stream frames = highland_sequence (highland_map result_data frames)"

section \<open>Command builder\<close>

text \<open>
  \<open>buildCommand\<close> works on objects of its caller, so it is modelled over a store of
  objects. A property that is \<open>undefined\<close> is \<open>None\<close>; a property that holds an object
  holds its address. Message objects, argument bags and bindings objects live in separate
  address spaces; \<open>next_addr\<close> is the first address no object has yet.
\<close>

type_synonym addr = nat

record args_object =
  a_gremlin :: "string option"
  a_bindings :: "addr option"
  a_accept :: "string option"
  a_language :: "string option"
  a_binary :: "bool option"
  a_session :: "string option"

record message_object =
  m_requestId :: "string option"
  m_processor :: "string option"
  m_op :: "string option"
  m_args :: "addr option"

record store =
  message_objects :: "addr \<Rightarrow> message_object"
  args_objects :: "addr \<Rightarrow> args_object"
  bindings_objects :: "addr \<Rightarrow> (string \<times> json) list"
  next_addr :: addr

text \<open>\<open>script\<close> is source text, or a function known by its \<open>toString()\<close>.\<close>

datatype script = Source string | Function string

fun indexOf_from :: "nat \<Rightarrow> string \<Rightarrow> char \<Rightarrow> int" where
  "indexOf_from i [] c = - 1"
| "indexOf_from i (x # xs) c = (if x = c then int i else indexOf_from (i + 1) xs c)"

fun lastIndexOf_from :: "nat \<Rightarrow> string \<Rightarrow> char \<Rightarrow> int \<Rightarrow> int" where
  "lastIndexOf_from i [] c found = found"
| "lastIndexOf_from i (x # xs) c found =
     lastIndexOf_from (i + 1) xs c (if x = c then int i else found)"

definition indexOf :: "string \<Rightarrow> char \<Rightarrow> int" where
  "indexOf s c = indexOf_from 0 s c"

definition lastIndexOf :: "string \<Rightarrow> char \<Rightarrow> int" where
  "lastIndexOf s c = lastIndexOf_from 0 s c (- 1)"

text \<open>\<open>String.prototype.substring\<close>: both indices are clamped to the string, and swapped when the first is the larger.\<close>

definition substring :: "string \<Rightarrow> int \<Rightarrow> int \<Rightarrow> string" where
  "substring s indexStart indexEnd =
     (let n = int (length s);
          a = max 0 (min indexStart n);
          b = max 0 (min indexEnd n)
      in take (nat (max a b - min a b)) (drop (nat (min a b)) s))"

definition extractFunctionBody :: "string \<Rightarrow> string" where
  "extractFunctionBody body = substring body (indexOf body CHR ''{'' + 1) (lastIndexOf body CHR ''}'')"

text \<open>
  lodash's \<open>_.defaults(object, source)\<close> assigns, in \<open>object\<close> itself, every property of
  \<open>source\<close> that \<open>object\<close> has \<open>undefined\<close>, and returns \<open>object\<close>.
\<close>

definition assignDefaults :: "'a option \<Rightarrow> 'a option \<Rightarrow> 'a option" where
  "assignDefaults objectValue sourceValue =
     (case objectValue of None \<Rightarrow> sourceValue | Some v \<Rightarrow> Some v)"

definition defaults_args :: "args_object \<Rightarrow> args_object \<Rightarrow> args_object" where
  "defaults_args object source =
     \<lparr>a_gremlin = assignDefaults (a_gremlin object) (a_gremlin source),
      a_bindings = assignDefaults (a_bindings object) (a_bindings source),
      a_accept = assignDefaults (a_accept object) (a_accept source),
      a_language = assignDefaults (a_language object) (a_language source),
      a_binary = assignDefaults (a_binary object) (a_binary source),
      a_session = assignDefaults (a_session object) (a_session source)\<rparr>"

definition defaults_message :: "message_object \<Rightarrow> message_object \<Rightarrow> message_object" where
  "defaults_message object source =
     \<lparr>m_requestId = assignDefaults (m_requestId object) (m_requestId source),
      m_processor = assignDefaults (m_processor object) (m_processor source),
      m_op = assignDefaults (m_op object) (m_op source),
      m_args = assignDefaults (m_args object) (m_args source)\<rparr>"

text \<open>A fresh \<open>{}\<close> of each kind, and a fresh \<open>MessageStream\<close>.\<close>

definition new_bindings :: "store \<Rightarrow> addr \<times> store" where
  "new_bindings h =
     (next_addr h,
      h\<lparr>bindings_objects := (bindings_objects h)(next_addr h := []), next_addr := next_addr h + 1\<rparr>)"

definition new_args :: "store \<Rightarrow> addr \<times> store" where
  "new_args h =
     (next_addr h,
      h\<lparr>args_objects := (args_objects h)(next_addr h :=
           \<lparr>a_gremlin = None, a_bindings = None, a_accept = None, a_language = None,
            a_binary = None, a_session = None\<rparr>),
        next_addr := next_addr h + 1\<rparr>)"

definition new_message :: "store \<Rightarrow> addr \<times> store" where
  "new_message h =
     (next_addr h,
      h\<lparr>message_objects := (message_objects h)(next_addr h :=
           \<lparr>m_requestId = None, m_processor = None, m_op = None, m_args = None\<rparr>),
        next_addr := next_addr h + 1\<rparr>)"

definition new_MessageStream :: "store \<Rightarrow> sink \<times> store" where
  "new_MessageStream h = (next_addr h, h\<lparr>next_addr := next_addr h + 1\<rparr>)"

text \<open>\<open>a || b || c\<close> on strings: the first that is not empty, else the last.\<close>

definition or_else :: "string option \<Rightarrow> string \<Rightarrow> string" where
  "or_else v w = (case v of None \<Rightarrow> w | Some x \<Rightarrow> if x = [] then w else x)"

text \<open>
  The three statements of \<open>buildCommand\<close> that write to objects.
  \<open>var args = _.defaults(message && message.args || {}, {gremlin: script, ...})\<close>
  fills the caller's argument bag when there is one, a fresh one otherwise.
\<close>

definition build_args :: "string \<Rightarrow> addr \<Rightarrow> addr option \<Rightarrow> client \<Rightarrow> store \<Rightarrow> addr \<times> store" where
  "build_args script bindings' message0 s h0 =
     (let (args', h) =
            (case (case message0 of Some m \<Rightarrow> m_args (message_objects h0 m) | None \<Rightarrow> None) of
               Some a \<Rightarrow> (a, h0)
             | None \<Rightarrow> new_args h0)
      in (args',
          h\<lparr>args_objects := (args_objects h)(args' :=
               defaults_args (args_objects h args')
                 \<lparr>a_gremlin = Some script, a_bindings = Some bindings',
                  a_accept = Some (options_accept s), a_language = Some (options_language s),
                  a_binary = Some False, a_session = None\<rparr>)\<rparr>))"

text \<open>
  \<open>message = _.defaults(message || {}, {requestId: guid, processor: ..., op: ..., args: args})\<close>
  fills the caller's object when there is one, a fresh one otherwise.
\<close>

definition build_message :: "string \<Rightarrow> addr \<Rightarrow> addr option \<Rightarrow> client \<Rightarrow> store \<Rightarrow> addr \<times> store" where
  "build_message guid args' message0 s h0 =
     (let (message', h) = (case message0 of Some m \<Rightarrow> (m, h0) | None \<Rightarrow> new_message h0)
      in (message',
          h\<lparr>message_objects := (message_objects h)(message' :=
               defaults_message (message_objects h message')
                 \<lparr>m_requestId = Some guid, m_processor = Some (options_processor s),
                  m_op = Some (options_op s), m_args = Some args'\<rparr>)\<rparr>))"

text \<open>
  The body of \<open>if (this.useSession)\<close>:
  \<open>command.message.processor = message.processor || this.options.processor || 'session';
  command.message.args.session = this.sessionId\<close>.
\<close>

definition use_session :: "addr \<Rightarrow> client \<Rightarrow> store \<Rightarrow> store" where
  "use_session message' s h0 =
     (let h = h0\<lparr>message_objects := (message_objects h0)(message' :=
                 (message_objects h0 message')\<lparr>m_processor :=
                    Some (or_else (m_processor (message_objects h0 message'))
                            (or_else (Some (options_processor s)) ''session''))\<rparr>)\<rparr>
      in case m_args (message_objects h message') of
           None \<Rightarrow> h
         | Some a \<Rightarrow>
             h\<lparr>args_objects := (args_objects h)(a := (args_objects h a)\<lparr>a_session := sessionId s\<rparr>)\<rparr>)"

text \<open>
  \<open>buildCommand(script, bindings, message)\<close>: \<open>bindings\<close> and \<open>message\<close> are \<open>None\<close> when
  the caller leaves them out; \<open>guid\<close> is what \<open>uuid.v1()\<close> returns on this call. The result
  is the command, the client and the store after the call.
\<close>

definition buildCommand ::
  "script \<Rightarrow> addr option \<Rightarrow> addr option \<Rightarrow> string \<Rightarrow> client \<Rightarrow> store
     \<Rightarrow> addr command \<times> client \<times> store" where
  "buildCommand script0 bindings0 message0 guid s h0 =
     (let script = (case script0 of Function body \<Rightarrow> extractFunctionBody body | Source src \<Rightarrow> src);
          (bindings', h) = (case bindings0 of Some b \<Rightarrow> (b, h0) | None \<Rightarrow> new_bindings h0);
          (messageStream', h) = new_MessageStream h;
          (args', h) = build_args script bindings' message0 s h;
          (message', h) = build_message guid args' message0 s h;
          command = \<lparr>message = message', messageStream = messageStream'\<rparr>;
          h = (if useSession s then use_session message' s h else h)
      in (command, s, h))"

text \<open>
  The message a built command holds, read from the store as \<open>sendCommand\<close> takes it:
  defined once every property the core reads is present.
\<close>

definition read_message :: "store \<Rightarrow> addr \<Rightarrow> message option" where
  "read_message h m =
     (let mo = message_objects h m in
      case (m_requestId mo, m_processor mo, m_op mo, m_args mo) of
        (Some r, Some p, Some operation, Some a) \<Rightarrow>
          (let ao = args_objects h a in
           case (a_gremlin ao, a_bindings ao, a_accept ao, a_language ao, a_binary ao) of
             (Some g, Some b, Some acc, Some l, Some bin) \<Rightarrow>
               Some \<lparr>requestId = r, processor = p, op = operation,
                     args = \<lparr>gremlin = g, bindings = JObj (bindings_objects h b), accept = acc,
                             language = l, binary = bin, session = a_session ao\<rparr>\<rparr>
           | _ \<Rightarrow> None)
      | _ \<Rightarrow> None)"

text \<open>
  What the caller's overrides object holds when \<open>buildCommand\<close> is called (nothing when
  the caller passes no object), and the message object of the command it returns, read in
  the store it leaves.
\<close>

definition supplied_requestId :: "addr option \<Rightarrow> store \<Rightarrow> string option" where
  "supplied_requestId message0 h =
     (case message0 of None \<Rightarrow> None | Some m \<Rightarrow> m_requestId (message_objects h m))"

definition supplied_args :: "addr option \<Rightarrow> store \<Rightarrow> addr option" where
  "supplied_args message0 h =
     (case message0 of None \<Rightarrow> None | Some m \<Rightarrow> m_args (message_objects h m))"


definition store_after :: "addr command \<times> client \<times> store \<Rightarrow> store" where
  "store_after r = snd (snd r)"


section \<open>Inputs used to run the definitions\<close>

text \<open>
  The message and the command that \<open>buildCommand\<close> gives for the script \<open>1+1\<close> on a
  client without options, with the token, the operation and the stream left open.
\<close>

definition test_message :: "string \<Rightarrow> string \<Rightarrow> message" where
  "test_message rid operation =
     \<lparr>requestId = rid, processor = '''', op = operation,
      args = \<lparr>gremlin = ''1+1'', bindings = JObj [], accept = ''application/json'',
              language = ''gremlin-groovy'', binary = False, session = None\<rparr>\<rparr>"

definition test_command :: "string \<Rightarrow> string \<Rightarrow> sink \<Rightarrow> message command" where
  "test_command rid operation ms = \<lparr>message = test_message rid operation, messageStream = ms\<rparr>"

definition test_frame :: "string \<Rightarrow> int \<Rightarrow> frame" where
  "test_frame rid code =
     \<lparr>frame_requestId = rid, status_code = code, status_message = ''boom'', result_data = [JNum 2]\<rparr>"

definition test_close :: close_event where
  "test_close = \<lparr>close_code = 1006, close_reason = '''', wasClean = False\<rparr>"

text \<open>A stand-in for \<open>JSON.stringify\<close> that is enough to tell messages apart.\<close>

definition test_stringify :: "message \<Rightarrow> string" where
  "test_stringify msg = ''{requestId:'' @ requestId msg @ ''}''"

text \<open>The same message with an accept type of its own and binary framing requested.\<close>

definition test_binary_message :: "string \<Rightarrow> string \<Rightarrow> message" where
  "test_binary_message rid accept_type =
     (test_message rid ''eval'')
       \<lparr>args := (args (test_message rid ''eval''))\<lparr>accept := accept_type, binary := True\<rparr>\<rparr>"




section \<open>Auxiliary facts\<close>

lemma pack_loop_eq:
  "length bm = 1 + length sm \<Longrightarrow> i \<le> length sm \<Longrightarrow>
   pack_loop i sm bm = take (i + 1) bm @ map of_char (drop i sm)"
proof (induction i sm bm rule: pack_loop.induct)
  case (1 i sm bm)
  show ?case
  proof (cases "i < length sm")
    case True
    have "pack_loop i sm bm = pack_loop (i + 1) sm (bm[i + 1 := of_char (sm ! i)])"
      using True by (subst pack_loop.simps) simp
    also have "\<dots> = take (i + 2) (bm[i + 1 := of_char (sm ! i)]) @ map of_char (drop (i + 1) sm)"
      using "1.IH" [OF True] "1.prems" True by simp
    also have "take (i + 2) (bm[i + 1 := of_char (sm ! i)]) = take (i + 1) bm @ [of_char (sm ! i)]"
      using "1.prems" True by (simp add: take_Suc_conv_app_nth)
    also have "(take (i + 1) bm @ [of_char (sm ! i)]) @ map of_char (drop (i + 1) sm)
               = take (i + 1) bm @ map of_char (drop i sm)"
      using True by (simp add: Cons_nth_drop_Suc [symmetric])
    finally show ?thesis .
  next
    case False
    then show ?thesis using "1.prems" by (subst pack_loop.simps) simp
  qed
qed

lemma packMessageToBinary_layout:
  "packMessageToBinary stringify s msg =
     of_nat (length (options_accept s)) #
       map of_char (utf8_escape (accept (args msg)) @ utf8_escape (stringify msg))"
  by (simp add: packMessageToBinary_def Let_def pack_loop_eq utf8_escape_def)

lemma executeQueue_eq:
  "executeQueue stringify s =
     s\<lparr>queue := [],
       effects := effects s @ map (\<lambda>c. Ws_send (formatedMessage stringify s (message c))) (queue s)\<rparr>"
proof (induction "queue s" arbitrary: s)
  case Nil
  then show ?case by (subst executeQueue.simps) simp
next
  case (Cons c rest)
  let ?s' = "sendMessage stringify (message c) (s\<lparr>queue := rest\<rparr>)"
  have q: "queue ?s' = rest" by (simp add: sendMessage_def do_effects_def)
  have f: "formatedMessage stringify ?s' = formatedMessage stringify s"
    by (rule ext) (simp add: formatedMessage_def packMessageToBinary_layout sendMessage_def do_effects_def)
  have "executeQueue stringify s = executeQueue stringify ?s'"
    using Cons.hyps(2) [symmetric] by (subst executeQueue.simps) simp
  also have "\<dots> = ?s'\<lparr>queue := [], effects := effects ?s' @ map (\<lambda>c. Ws_send (formatedMessage stringify ?s' (message c))) (queue ?s')\<rparr>"
    using Cons.hyps(1) [of ?s'] q by simp
  also have "\<dots> = s\<lparr>queue := [], effects := effects s @ map (\<lambda>c. Ws_send (formatedMessage stringify s (message c))) (queue s)\<rparr>"
    using Cons.hyps(2) [symmetric] 
    by (simp add: f q) (simp add: sendMessage_def do_effects_def formatedMessage_def packMessageToBinary_layout)
  finally show ?case .
qed


lemma fold_do_effects:
  "fold (\<lambda>key st. case map_of al key of None \<Rightarrow> st
                 | Some command \<Rightarrow> do_effects [g command] st) ks st0
   = st0\<lparr>effects := effects st0 @
        concat (map (\<lambda>key. case map_of al key of None \<Rightarrow> [] | Some command \<Rightarrow> [g command]) ks)\<rparr>"
proof (induction ks arbitrary: st0)
  case Nil
  show ?case by simp
next
  case (Cons k ks)
  show ?case
    by (cases "map_of al k") (simp_all add: Cons.IH do_effects_def)
qed

lemma concat_singletons: "concat (map (\<lambda>p. [h p]) xs) = map h xs"
  by (induction xs) simp_all

lemma keys_lookup_distinct:
  assumes d: "distinct (map fst al)"
  shows "concat (map (\<lambda>key. case map_of al key of None \<Rightarrow> [] | Some command \<Rightarrow> [g command]) (map fst al))
   = map (\<lambda>(key, command). g command) al"
proof -
  have "map (\<lambda>p. case map_of al (fst p) of None \<Rightarrow> [] | Some command \<Rightarrow> [g command]) al
        = map (\<lambda>p. [g (snd p)]) al"
  proof (rule map_cong [OF refl])
    fix p assume "p \<in> set al"
    then have "map_of al (fst p) = Some (snd p)"
      using d by (metis map_of_is_SomeI prod.collapse)
    then show "(case map_of al (fst p) of None \<Rightarrow> [] | Some command \<Rightarrow> [g command]) = [g (snd p)]"
      by simp
  qed
  note e = this
  have "concat (map (\<lambda>key. case map_of al key of None \<Rightarrow> [] | Some command \<Rightarrow> [g command]) (map fst al))
        = concat (map (\<lambda>p. case map_of al (fst p) of None \<Rightarrow> [] | Some command \<Rightarrow> [g command]) al)"
    by (simp add: comp_def)
  also have "\<dots> = concat (map (\<lambda>p. [g (snd p)]) al)"
    by (simp only: e)
  also have "\<dots> = map (\<lambda>p. g (snd p)) al" by (rule concat_singletons)
  also have "\<dots> = map (\<lambda>(key, command). g command) al" by (simp add: case_prod_beta)
  finally show ?thesis .
qed

lemma cancelPendingCommands_eq:
  assumes "distinct (map fst (commands s))"
  shows "cancelPendingCommands rsn s =
     s\<lparr>queue := [], commands := [],
       effects := effects s @
         map (\<lambda>(key, command). Stream_emit_error (messageStream command)
                \<lparr>error_message = reason_message rsn, details = Some (reason_details rsn)\<rparr>)
           (commands s)\<rparr>"
  unfolding cancelPendingCommands_def Let_def
  by (simp add: fold_do_effects keys_lookup_distinct [OF assms] del: map_map)


lemma sendCommand_disconnected:
  assumes "\<not> connected s"
  shows "\<not> connected (sendCommand stringify c s)"
    and "queue (sendCommand stringify c s) = queue s @ [c]"
    and "effects (sendCommand stringify c s) = effects s"
    and "options_accept (sendCommand stringify c s) = options_accept s"
  using assms by (simp_all add: sendCommand_def Let_def)

lemma fold_sendCommand_disconnected:
  "\<not> connected s \<Longrightarrow>
   queue (fold (sendCommand stringify) cs s) = queue s @ cs
   \<and> effects (fold (sendCommand stringify) cs s) = effects s
   \<and> options_accept (fold (sendCommand stringify) cs s) = options_accept s"
proof (induction cs arbitrary: s)
  case Nil
  show ?case by simp
next
  case (Cons c cs)
  note s' = sendCommand_disconnected [OF Cons.prems, of stringify c]
  show ?case
    using Cons.IH [OF s'(1)] by (simp add: s'(2,3,4))
qed

lemma formatedMessage_cong:
  "options_accept s' = options_accept s \<Longrightarrow>
   formatedMessage stringify s' msg = formatedMessage stringify s msg"
  by (simp add: formatedMessage_def packMessageToBinary_layout)

lemma onConnectionOpen_eq:
  "onConnectionOpen stringify t =
     t\<lparr>connected := True, queue := [],
       effects := effects t @ Client_emit ''connect'' #
         map (\<lambda>c. Ws_send (formatedMessage stringify t (message c))) (queue t)\<rparr>"
proof -
  let ?t1 = "do_effects [Client_emit ''connect''] (t\<lparr>connected := True\<rparr>)"
  have "formatedMessage stringify ?t1 = formatedMessage stringify t"
    by (rule ext) (rule formatedMessage_cong, simp add: do_effects_def)
  then show ?thesis
    by (simp add: onConnectionOpen_def executeQueue_eq) (simp add: do_effects_def)
qed

lemma two_commands_state:
  "sendCommand test_stringify (test_command ''r2'' ''eval'' 12)
     (sendCommand test_stringify (test_command ''r1'' ''eval'' 11) GremlinClient)
   = GremlinClient\<lparr>queue := [test_command ''r1'' ''eval'' 11, test_command ''r2'' ''eval'' 12],
       commands := [(''r1'', test_command ''r1'' ''eval'' 11), (''r2'', test_command ''r2'' ''eval'' 12)]\<rparr>"
  by (simp add: sendCommand_def Let_def GremlinClient_def test_command_def test_message_def)


lemma dispatch_slot: "lastAuthenticationReqId (dispatch r f s) = lastAuthenticationReqId s"
  by (simp add: dispatch_def do_effects_def Let_def split: option.splits)

lemma assignDefaults_idem: "assignDefaults v (assignDefaults v w) = assignDefaults v w"
  by (simp add: assignDefaults_def split: option.splits)

lemma defaults_args_idem: "defaults_args x (defaults_args x y) = defaults_args x y"
  by (simp add: defaults_args_def assignDefaults_idem)

lemma defaults_message_idem: "defaults_message x (defaults_message x y) = defaults_message x y"
  by (simp add: defaults_message_def assignDefaults_idem)

lemma build_args_frame:
  "message_objects (snd (build_args script b message0 s h)) = message_objects h"
  "bindings_objects (snd (build_args script b message0 s h)) = bindings_objects h"
  "next_addr h \<le> next_addr (snd (build_args script b message0 s h))"
  "fst (build_args script b message0 s h) =
     (case supplied_args message0 h of Some a \<Rightarrow> a | None \<Rightarrow> next_addr h)"
  "a \<noteq> fst (build_args script b message0 s h) \<Longrightarrow>
     args_objects (snd (build_args script b message0 s h)) a = args_objects h a"
  "supplied_args message0 h = Some a' \<Longrightarrow>
     args_objects (snd (build_args script b message0 s h)) a' =
       defaults_args (args_objects h a') (args_objects (snd (build_args script b message0 s h)) a')"
  by (cases "supplied_args message0 h";
      simp add: build_args_def supplied_args_def new_args_def Let_def defaults_args_idem
        split: option.splits)+

lemma build_message_frame:
  "args_objects (snd (build_message guid ar message0 s h)) = args_objects h"
  "bindings_objects (snd (build_message guid ar message0 s h)) = bindings_objects h"
  "fst (build_message guid ar message0 s h) = (case message0 of Some m \<Rightarrow> m | None \<Rightarrow> next_addr h)"
  "a \<noteq> fst (build_message guid ar message0 s h) \<Longrightarrow>
     message_objects (snd (build_message guid ar message0 s h)) a = message_objects h a"
  "message0 = Some m \<Longrightarrow>
     message_objects (snd (build_message guid ar message0 s h)) m =
       defaults_message (message_objects h m) (message_objects (snd (build_message guid ar message0 s h)) m)"
  "m_requestId (message_objects (snd (build_message guid ar message0 s h))
       (fst (build_message guid ar message0 s h))) =
     Some (case supplied_requestId message0 h of None \<Rightarrow> guid | Some r \<Rightarrow> r)"
  "m_args (message_objects (snd (build_message guid ar message0 s h))
       (fst (build_message guid ar message0 s h))) =
     Some (case supplied_args message0 h of None \<Rightarrow> ar | Some x \<Rightarrow> x)"
  by (cases message0;
      simp add: build_message_def supplied_requestId_def supplied_args_def new_message_def Let_def
        defaults_message_idem;
      simp add: defaults_message_def assignDefaults_def split: option.splits)+


lemma buildCommand_unfold:
  "buildCommand script0 bindings0 message0 guid s h0 =
     (let script = (case script0 of Function body \<Rightarrow> extractFunctionBody body | Source src \<Rightarrow> src);
          bh = (case bindings0 of Some b \<Rightarrow> (b, h0) | None \<Rightarrow> new_bindings h0);
          sh = new_MessageStream (snd bh);
          ah = build_args script (fst bh) message0 s (snd sh);
          mh = build_message guid (fst ah) message0 s (snd ah)
      in (\<lparr>message = fst mh, messageStream = fst sh\<rparr>, s,
          if useSession s then use_session (fst mh) s (snd mh) else snd mh))"
  by (simp add: buildCommand_def Let_def case_prod_beta)




lemma supplied_cong:
  "message_objects h' = message_objects h \<Longrightarrow> supplied_args message0 h' = supplied_args message0 h"
  "message_objects h' = message_objects h \<Longrightarrow> supplied_requestId message0 h' = supplied_requestId message0 h"
  by (cases message0; simp add: supplied_args_def supplied_requestId_def)+

lemma assignDefaults_Some:
  "assignDefaults v (Some x) = Some (case v of None \<Rightarrow> x | Some y \<Rightarrow> y)"
  by (simp add: assignDefaults_def split: option.splits)

lemma build_args_complete:
  "\<exists>g b acc l bin. 
     a_gremlin (args_objects (snd (build_args script bd message0 s h)) (fst (build_args script bd message0 s h))) = Some g
   \<and> a_bindings (args_objects (snd (build_args script bd message0 s h)) (fst (build_args script bd message0 s h))) = Some b
   \<and> a_accept (args_objects (snd (build_args script bd message0 s h)) (fst (build_args script bd message0 s h))) = Some acc
   \<and> a_language (args_objects (snd (build_args script bd message0 s h)) (fst (build_args script bd message0 s h))) = Some l
   \<and> a_binary (args_objects (snd (build_args script bd message0 s h)) (fst (build_args script bd message0 s h))) = Some bin"
  by (simp add: build_args_def Let_def case_prod_beta defaults_args_def assignDefaults_Some)

lemma build_message_complete:
  "\<exists>r p opn.
     m_requestId (message_objects (snd (build_message guid ar message0 s h)) (fst (build_message guid ar message0 s h))) = Some r
   \<and> m_processor (message_objects (snd (build_message guid ar message0 s h)) (fst (build_message guid ar message0 s h))) = Some p
   \<and> m_op (message_objects (snd (build_message guid ar message0 s h)) (fst (build_message guid ar message0 s h))) = Some opn"
  by (simp add: build_message_def Let_def case_prod_beta defaults_message_def assignDefaults_Some)


lemma use_session_keeps_defined:
  "m_requestId (message_objects h m) = Some r \<Longrightarrow> m_requestId (message_objects (use_session m s h) m) = Some r"
  "m_op (message_objects h m) = Some opn \<Longrightarrow> m_op (message_objects (use_session m s h) m) = Some opn"
  "m_args (message_objects h m) = Some a \<Longrightarrow> m_args (message_objects (use_session m s h) m) = Some a"
  "\<exists>p. m_processor (message_objects (use_session m s h) m) = Some p"
  "m_args (message_objects h m) = Some a \<Longrightarrow> a_gremlin (args_objects h a) = Some g \<Longrightarrow>
     a_gremlin (args_objects (use_session m s h) a) = Some g"
  "m_args (message_objects h m) = Some a \<Longrightarrow> a_bindings (args_objects h a) = Some b \<Longrightarrow>
     a_bindings (args_objects (use_session m s h) a) = Some b"
  "m_args (message_objects h m) = Some a \<Longrightarrow> a_accept (args_objects h a) = Some acc \<Longrightarrow>
     a_accept (args_objects (use_session m s h) a) = Some acc"
  "m_args (message_objects h m) = Some a \<Longrightarrow> a_language (args_objects h a) = Some l \<Longrightarrow>
     a_language (args_objects (use_session m s h) a) = Some l"
  "m_args (message_objects h m) = Some a \<Longrightarrow> a_binary (args_objects h a) = Some bin \<Longrightarrow>
     a_binary (args_objects (use_session m s h) a) = Some bin"
  by (simp_all add: use_session_def Let_def split: option.splits)

lemma read_message_defined:
  assumes "m_requestId (message_objects h m) = Some r" "m_processor (message_objects h m) = Some p"
    "m_op (message_objects h m) = Some opn" "m_args (message_objects h m) = Some a"
    "a_gremlin (args_objects h a) = Some g" "a_bindings (args_objects h a) = Some b"
    "a_accept (args_objects h a) = Some acc" "a_language (args_objects h a) = Some l"
    "a_binary (args_objects h a) = Some bin"
  shows "read_message h m =
     Some \<lparr>requestId = r, processor = p, op = opn,
           args = \<lparr>gremlin = g, bindings = JObj (bindings_objects h b), accept = acc,
                   language = l, binary = bin, session = a_session (args_objects h a)\<rparr>\<rparr>"
  using assms by (simp add: read_message_def)


lemma buildCommand_complete:
  "\<exists>msg. read_message (store_after (buildCommand script0 bindings0 message0 guid s h))
     (message (fst (buildCommand script0 bindings0 message0 guid s h))) = Some msg"
proof -
  define script where
    "script = (case script0 of Function body \<Rightarrow> extractFunctionBody body | Source src \<Rightarrow> src)"
  define bh where "bh = (case bindings0 of Some b \<Rightarrow> (b, h) | None \<Rightarrow> new_bindings h)"
  define sh where "sh = new_MessageStream (snd bh)"
  define ah where "ah = build_args script (fst bh) message0 s (snd sh)"
  define mh where "mh = build_message guid (fst ah) message0 s (snd ah)"
  define h5 where "h5 = (if useSession s then use_session (fst mh) s (snd mh) else snd mh)"
  have r: "buildCommand script0 bindings0 message0 guid s h =
      (\<lparr>message = fst mh, messageStream = fst sh\<rparr>, s, h5)"
    by (simp add: buildCommand_unfold Let_def script_def bh_def sh_def ah_def mh_def h5_def)
  obtain g b acc l bin where ao:
    "a_gremlin (args_objects (snd ah) (fst ah)) = Some g"
    "a_bindings (args_objects (snd ah) (fst ah)) = Some b"
    "a_accept (args_objects (snd ah) (fst ah)) = Some acc"
    "a_language (args_objects (snd ah) (fst ah)) = Some l"
    "a_binary (args_objects (snd ah) (fst ah)) = Some bin"
    unfolding ah_def using build_args_complete by blast
  obtain rq p opn where mo:
    "m_requestId (message_objects (snd mh) (fst mh)) = Some rq"
    "m_processor (message_objects (snd mh) (fst mh)) = Some p"
    "m_op (message_objects (snd mh) (fst mh)) = Some opn"
    unfolding mh_def using build_message_complete by blast
  have m3: "message_objects (snd ah) = message_objects (snd sh)"
    by (simp add: ah_def build_args_frame)
  have fa: "fst ah = (case supplied_args message0 (snd sh) of Some x \<Rightarrow> x | None \<Rightarrow> next_addr (snd sh))"
    by (simp add: ah_def build_args_frame)
  have ma: "m_args (message_objects (snd mh) (fst mh)) = Some (fst ah)"
    using build_message_frame(7) [of guid "fst ah" message0 s "snd ah"]
    by (simp add: mh_def supplied_cong(1) [OF m3] fa split: option.splits)
  have a4: "args_objects (snd mh) = args_objects (snd ah)"
    by (simp add: mh_def build_message_frame)
  show ?thesis
  proof (cases "useSession s")
    case False
    then have "h5 = snd mh" by (simp add: h5_def)
    then show ?thesis
      using read_message_defined [OF mo ma, of g b acc l bin] ao
      by (simp add: r store_after_def a4)
  next
    case True
    then have h5: "h5 = use_session (fst mh) s (snd mh)" by (simp add: h5_def)
    obtain p' where p': "m_processor (message_objects h5 (fst mh)) = Some p'"
      unfolding h5 using use_session_keeps_defined(4) by blast
    have ao4: "a_gremlin (args_objects (snd mh) (fst ah)) = Some g"
      "a_bindings (args_objects (snd mh) (fst ah)) = Some b"
      "a_accept (args_objects (snd mh) (fst ah)) = Some acc"
      "a_language (args_objects (snd mh) (fst ah)) = Some l"
      "a_binary (args_objects (snd mh) (fst ah)) = Some bin"
      using ao by (simp_all add: a4)
    show ?thesis
      using read_message_defined [of h5 "fst mh" rq p' opn "fst ah" g b acc l bin]
        use_session_keeps_defined(1) [OF mo(1), of s]
        use_session_keeps_defined(2) [OF mo(3), of s]
        use_session_keeps_defined(3) [OF ma, of s]
        use_session_keeps_defined(5) [OF ma ao4(1), of s]
        use_session_keeps_defined(6) [OF ma ao4(2), of s]
        use_session_keeps_defined(7) [OF ma ao4(3), of s]
        use_session_keeps_defined(8) [OF ma ao4(4), of s]
        use_session_keeps_defined(9) [OF ma ao4(5), of s]
        p'
      by (simp add: r store_after_def h5)
  qed
qed



lemma highland_sequence_concat: "highland_sequence xss = concat xss"
  by (induction xss rule: highland_sequence.induct) simp_all

text \<open>
  The keys of the table stay distinct, as the property names of an object are: the
  hypothesis under which \<open>cancelPendingCommands\<close> is characterised holds of every
  state the client reaches.
\<close>

lemma table_keys_distinct:
  "distinct (map fst (commands GremlinClient))"
  "distinct (map fst (commands s)) \<Longrightarrow> distinct (map fst (commands (sendCommand stringify c s)))"
  "distinct (map fst (commands s)) \<Longrightarrow> distinct (map fst (commands (handleMessage f s)))"
  "distinct (map fst (commands s)) \<Longrightarrow> distinct (map fst (commands (onConnectionOpen stringify s)))"
  "distinct (map fst (commands (handleDisconnection ev s)))"
proof -
  show "distinct (map fst (commands GremlinClient))"
    by (simp add: GremlinClient_def)
  show "distinct (map fst (commands (sendCommand stringify c s)))"
    if "distinct (map fst (commands s))"
    using that by (simp add: sendCommand_def Let_def sendMessage_def do_effects_def distinct_update)
  show "distinct (map fst (commands (handleMessage f s)))"
    if "distinct (map fst (commands s))"
    using that
    by (simp add: handleMessage_def dispatch_def do_effects_def Let_def distinct_delete
        split: option.splits)
  show "distinct (map fst (commands (onConnectionOpen stringify s)))"
    if "distinct (map fst (commands s))"
    using that by (simp add: onConnectionOpen_eq)
  show "distinct (map fst (commands (handleDisconnection ev s)))"
    by (simp add: handleDisconnection_def cancelPendingCommands_def Let_def fold_do_effects)
qed

text \<open>
  When the message's accept type is the client's, is ASCII and is shorter than 256
  characters, the prefix byte is the length of the accept type that follows it.
\<close>

lemma utf8_escape_ascii:
  "\<forall>c\<in>set s. (of_char c :: nat) < 128 \<Longrightarrow> utf8_escape s = s"
  by (induction s) (simp_all add: utf8_escape_def utf8_unit_def)

lemma packMessageToBinary_prefix_when_not_overridden:
  assumes "accept (args msg) = options_accept s" "length (options_accept s) < 256"
    "\<forall>c\<in>set (options_accept s). (of_char c :: nat) < 128"
  shows "packMessageToBinary stringify s msg =
           of_nat (length (accept (args msg))) #
             map of_char (accept (args msg)) @ map of_char (utf8_escape (stringify msg))"
    and "unat (hd (packMessageToBinary stringify s msg)) = length (accept (args msg))"
  using assms by (simp_all add: packMessageToBinary_layout utf8_escape_ascii unat_of_nat)

text \<open>
  The stream over what \<open>handleMessage\<close> pushes: a success frame with
  \<open>result.data = [2]\<close>, delivered to a pending command, gives the one event \<open>2\<close>.
\<close>

lemma stream_of_success_frame:
  "stream (pushed_frames 7
     (effects (handleMessage (test_frame ''r1'' 200)
        (GremlinClient\<lparr>commands := [(''r1'', test_command ''r1'' ''eval'' 7)]\<rparr>))))
   = [JNum 2]"
  by (simp add: handleMessage_def dispatch_def do_effects_def stream_def highland_map_def
      GremlinClient_def test_frame_def test_command_def)

section \<open>The claims\<close>



text \<open>
  C2 (as amended). When the connection closes, every command registered in the
  Correlation Table receives exactly one error event, in the order of the table: its
  reason is the fixed string \<open>WebSocket closed\<close> and its details are the close event,
  the same for all. The Pending Queue and the Correlation Table are both empty afterwards.
  (The keys of a JavaScript object are distinct, which is the hypothesis.)
\<close>

theorem handleDisconnection_fails_registered:
  assumes "distinct (map fst (commands s))"
  shows "queue (handleDisconnection ev s) = []
       \<and> commands (handleDisconnection ev s) = []
       \<and> effects (handleDisconnection ev s) = effects s @
           map (\<lambda>(key, command). Stream_emit_error (messageStream command)
                  \<lparr>error_message = ''WebSocket closed'', details = Some ev\<rparr>)
             (commands s)"
  by (simp add: handleDisconnection_def cancelPendingCommands_eq [OF assms])

theorem handleDisconnection_fails_registered_witness:
  "distinct (map fst (commands
      (sendCommand test_stringify (test_command ''r2'' ''eval'' 12)
        (sendCommand test_stringify (test_command ''r1'' ''eval'' 11) GremlinClient))))
   \<and> queue (handleDisconnection test_close
      (sendCommand test_stringify (test_command ''r2'' ''eval'' 12)
        (sendCommand test_stringify (test_command ''r1'' ''eval'' 11) GremlinClient))) = []
   \<and> commands (handleDisconnection test_close
      (sendCommand test_stringify (test_command ''r2'' ''eval'' 12)
        (sendCommand test_stringify (test_command ''r1'' ''eval'' 11) GremlinClient))) = []
   \<and> effects (handleDisconnection test_close
      (sendCommand test_stringify (test_command ''r2'' ''eval'' 12)
        (sendCommand test_stringify (test_command ''r1'' ''eval'' 11) GremlinClient)))
     = [Stream_emit_error 11 \<lparr>error_message = ''WebSocket closed'', details = Some test_close\<rparr>,
        Stream_emit_error 12 \<lparr>error_message = ''WebSocket closed'', details = Some test_close\<rparr>]"
proof -
  let ?s = "sendCommand test_stringify (test_command ''r2'' ''eval'' 12)
        (sendCommand test_stringify (test_command ''r1'' ''eval'' 11) GremlinClient)"
  have d: "distinct (map fst (commands ?s))"
    by (simp add: two_commands_state)
  show ?thesis
    using handleDisconnection_fails_registered [OF d, of test_close] d
    by (simp add: two_commands_state) (simp add: GremlinClient_def test_command_def)
qed

text \<open>
  The claim as stated names the reason \<open>connection closed\<close> and counts the commands
  waiting in the queue. Two commands submitted under one token while the client is not
  connected are both queued, and only the one the table holds receives the error, whose
  reason is \<open>WebSocket closed\<close>.
\<close>

theorem handleDisconnection_reason_and_unregistered:
  "queue (sendCommand test_stringify (test_command ''r1'' ''eval'' 12)
        (sendCommand test_stringify (test_command ''r1'' ''eval'' 11) GremlinClient))
     = [test_command ''r1'' ''eval'' 11, test_command ''r1'' ''eval'' 12]
   \<and> effects (handleDisconnection test_close
      (sendCommand test_stringify (test_command ''r1'' ''eval'' 12)
        (sendCommand test_stringify (test_command ''r1'' ''eval'' 11) GremlinClient)))
     = [Stream_emit_error 12 \<lparr>error_message = ''WebSocket closed'', details = Some test_close\<rparr>]
   \<and> ''WebSocket closed'' \<noteq> ''connection closed''"
  by (simp add: handleDisconnection_def cancelPendingCommands_def sendCommand_def Let_def
      do_effects_def GremlinClient_def test_command_def test_message_def)

text \<open>
  C3 (as amended). On the connection-open event the client sets \<open>connected\<close>, signals
  the \<open>connect\<close> event, and only then hands every queued command to the transport in the
  order of the queue, which it leaves empty. Commands submitted while the client is not
  connected are appended to the queue, so they are sent in the order they were submitted,
  after the \<open>connect\<close> signal.
\<close>

theorem onConnectionOpen_connect_then_fifo:
  "onConnectionOpen stringify s =
     s\<lparr>connected := True, queue := [],
       effects := effects s @ Client_emit ''connect'' #
         map (\<lambda>c. Ws_send (formatedMessage stringify s (message c))) (queue s)\<rparr>
   \<and> (\<not> connected s \<longrightarrow>
        effects (onConnectionOpen stringify (fold (sendCommand stringify) cs s)) =
          effects s @ Client_emit ''connect'' #
            map (\<lambda>c. Ws_send (formatedMessage stringify s (message c))) (queue s @ cs))"
proof (intro conjI impI)
  show "onConnectionOpen stringify s =
     s\<lparr>connected := True, queue := [],
       effects := effects s @ Client_emit ''connect'' #
         map (\<lambda>c. Ws_send (formatedMessage stringify s (message c))) (queue s)\<rparr>"
    by (rule onConnectionOpen_eq)
next
  assume d: "\<not> connected s"
  let ?t = "fold (sendCommand stringify) cs s"
  note f = fold_sendCommand_disconnected [OF d, of stringify cs]
  have "formatedMessage stringify ?t = formatedMessage stringify s"
    by (rule ext) (rule formatedMessage_cong, simp add: f)
  then show "effects (onConnectionOpen stringify ?t) =
          effects s @ Client_emit ''connect'' #
            map (\<lambda>c. Ws_send (formatedMessage stringify s (message c))) (queue s @ cs)"
    by (simp add: onConnectionOpen_eq [of stringify ?t] f)
qed


theorem onConnectionOpen_connect_then_fifo_witness:
  "\<not> connected GremlinClient
   \<and> effects (onConnectionOpen test_stringify
        (fold (sendCommand test_stringify)
           [test_command ''r1'' ''eval'' 1, test_command ''r2'' ''eval'' 2] GremlinClient))
     = [Client_emit ''connect'', Ws_send (Text ''{requestId:r1}''),
        Ws_send (Text ''{requestId:r2}'')]"
  using onConnectionOpen_connect_then_fifo [of test_stringify GremlinClient
      "[test_command ''r1'' ''eval'' 1, test_command ''r2'' ''eval'' 2]"]
  by (simp add: GremlinClient_def formatedMessage_def test_command_def test_message_def
      test_stringify_def)

text \<open>
  The claim as stated puts the transmissions before the \<open>connect\<close> signal; with one
  queued command the signal comes first.
\<close>

theorem onConnectionOpen_signals_before_sending:
  "effects (onConnectionOpen test_stringify
      (sendCommand test_stringify (test_command ''r1'' ''eval'' 1) GremlinClient))
     = [Client_emit ''connect'', Ws_send (Text ''{requestId:r1}'')]
   \<and> effects (onConnectionOpen test_stringify
      (sendCommand test_stringify (test_command ''r1'' ''eval'' 1) GremlinClient))
     \<noteq> [Ws_send (Text ''{requestId:r1}''), Client_emit ''connect'']"
  by (simp add: onConnectionOpen_eq sendCommand_def Let_def GremlinClient_def formatedMessage_def
      test_command_def test_message_def test_stringify_def)




text \<open>
  C5. When the command just submitted is an authentication operation, the slot holds its
  token and the table holds the command under it. The next frame is then dispatched under
  that token, whatever token the frame states, and the slot is empty afterwards: the frame
  after that one is dispatched under the token it states.
\<close>

theorem authentication_override_once:
  assumes "op (message cmd) = ''authentication''"
  shows "lastAuthenticationReqId (sendCommand stringify cmd s) = Some (requestId (message cmd))
       \<and> map_of (commands (sendCommand stringify cmd s)) (requestId (message cmd)) = Some cmd
       \<and> correlation_token f (sendCommand stringify cmd s) = requestId (message cmd)
       \<and> handleMessage f (sendCommand stringify cmd s) =
           dispatch (requestId (message cmd)) f
             ((sendCommand stringify cmd s)\<lparr>lastAuthenticationReqId := None\<rparr>)
       \<and> lastAuthenticationReqId (handleMessage f (sendCommand stringify cmd s)) = None
       \<and> correlation_token f' (handleMessage f (sendCommand stringify cmd s)) = frame_requestId f'
       \<and> handleMessage f' (handleMessage f (sendCommand stringify cmd s)) =
           dispatch (frame_requestId f') f' (handleMessage f (sendCommand stringify cmd s))"
proof -
  let ?s1 = "sendCommand stringify cmd s"
  have slot: "lastAuthenticationReqId ?s1 = Some (requestId (message cmd))"
    using assms by (simp add: sendCommand_def Let_def sendMessage_def do_effects_def)
  have tab: "map_of (commands ?s1) (requestId (message cmd)) = Some cmd"
    by (simp add: sendCommand_def Let_def sendMessage_def do_effects_def AList.update_conv')
  have h1: "handleMessage f ?s1 =
      dispatch (requestId (message cmd)) f (?s1\<lparr>lastAuthenticationReqId := None\<rparr>)"
    by (simp add: handleMessage_def slot)
  have s2: "lastAuthenticationReqId (handleMessage f ?s1) = None"
    by (simp add: h1 dispatch_slot)
  have h2: "handleMessage f' (handleMessage f ?s1) =
      dispatch (frame_requestId f') f' (handleMessage f ?s1)"
    by (simp add: handleMessage_def [of f'] s2)
  have t1: "correlation_token f ?s1 = requestId (message cmd)"
    by (simp add: correlation_token_def slot)
  have t2: "correlation_token f' (handleMessage f ?s1) = frame_requestId f'"
    by (simp add: correlation_token_def s2)
  show ?thesis using slot tab t1 h1 s2 t2 h2 by blast
qed

theorem authentication_override_once_witness:
  "op (message (test_command ''a1'' ''authentication'' 11)) = ''authentication''
   \<and> effects (handleMessage (test_frame ''zz'' 206)
        (sendCommand test_stringify (test_command ''a1'' ''authentication'' 11) GremlinClient))
     = [Stream_push 11 (Some (test_frame ''zz'' 206))]
   \<and> effects (handleMessage (test_frame ''zz'' 206)
        (handleMessage (test_frame ''zz'' 206)
          (sendCommand test_stringify (test_command ''a1'' ''authentication'' 11) GremlinClient)))
     = [Stream_push 11 (Some (test_frame ''zz'' 206))]"
proof -
  let ?cmd = "test_command ''a1'' ''authentication'' 11"
  let ?f = "test_frame ''zz'' 206"
  let ?s1 = "sendCommand test_stringify ?cmd GremlinClient"
  have a: "op (message ?cmd) = ''authentication''"
    by (simp add: test_command_def test_message_def)
  have r: "requestId (message ?cmd) = ''a1''" "messageStream ?cmd = 11"
    by (simp_all add: test_command_def test_message_def)
  have s1: "?s1 = GremlinClient\<lparr>queue := [?cmd], commands := [(''a1'', ?cmd)],
                    lastAuthenticationReqId := Some ''a1''\<rparr>"
    by (simp add: sendCommand_def Let_def a r) (simp add: GremlinClient_def)
  note th = authentication_override_once [OF a, of test_stringify GremlinClient ?f ?f]
  from th have h1: "handleMessage ?f ?s1 =
      dispatch (requestId (message ?cmd)) ?f (?s1\<lparr>lastAuthenticationReqId := None\<rparr>)"
    by blast
  from th have h2: "handleMessage ?f (handleMessage ?f ?s1) =
      dispatch (frame_requestId ?f) ?f (handleMessage ?f ?s1)"
    by blast
  have e1: "handleMessage ?f ?s1 =
      GremlinClient\<lparr>queue := [?cmd], commands := [(''a1'', ?cmd)],
         effects := [Stream_push 11 (Some ?f)]\<rparr>"
    apply (subst h1)
    apply (simp only: s1 r)
    apply (simp add: dispatch_def do_effects_def r GremlinClient_def test_frame_def)
    done
  have e2: "handleMessage ?f (handleMessage ?f ?s1) = handleMessage ?f ?s1"
    apply (subst h2)
    apply (simp only: e1)
    apply (simp add: dispatch_def GremlinClient_def test_frame_def)
    done
  show ?thesis
    using a
    apply (simp only: e2)
    apply (simp only: e1)
    apply (simp add: GremlinClient_def)
    done
qed




text \<open>
  C7. The packed frame is one prefix byte followed by the UTF-8 bytes of the accept type
  and of the serialized message. The claim has the prefix byte equal to the length of the
  accept type that is written, which is the message's own (\<open>message.args.accept\<close>); the
  code takes the prefix from the client's option (\<open>this.options.accept.length\<close>). On a
  client with the default accept type, a message that asks for binary framing with the
  accept type \<open>text/plain\<close> (10 characters) is packed with the prefix 16, and that is
  what \<open>sendMessage\<close> hands to the transport.
\<close>

theorem packMessageToBinary_prefix_from_options:
  "packMessageToBinary test_stringify GremlinClient (test_binary_message ''r1'' ''text/plain'')
     = 16 # map of_char ''text/plain{requestId:r1}''
   \<and> accept (args (test_binary_message ''r1'' ''text/plain'')) = ''text/plain''
   \<and> length ''text/plain'' = 10
   \<and> effects (sendMessage test_stringify (test_binary_message ''r1'' ''text/plain'') GremlinClient)
     = [Ws_send (Binary (16 # map of_char ''text/plain{requestId:r1}''))]"
  by (simp add: packMessageToBinary_layout sendMessage_def formatedMessage_def do_effects_def
      utf8_escape_def utf8_unit_def
      GremlinClient_def test_binary_message_def test_message_def test_stringify_def)

text \<open>
  C8. The incremental stream emits the concatenation of the \<open>result.data\<close> sequences of
  the frames it is fed, in order: the stream of two runs of frames is the stream of the
  first followed by the stream of the second, one frame yields as many events as its
  \<open>result.data\<close> has values, and a frame with three values yields those three.
\<close>

theorem stream_flattens:
  "stream frames = concat (map result_data frames)
   \<and> stream (frames @ frames') = stream frames @ stream frames'
   \<and> length (stream [rawMessage]) = length (result_data rawMessage)
   \<and> stream [rawMessage\<lparr>result_data := [x, y, z]\<rparr>] = [x, y, z]"
  by (simp add: stream_def highland_map_def highland_sequence_concat)







end
